theory Spec2Isabelle
  imports Complex_Main "HOL-Library.Product_Lexorder" "HOL-Library.AList"
begin

section \<open>Observation store: \<^verbatim>\<open>pipeline/ingest.py\<close>\<close>

text \<open>
  Instants are integers (ticks since an epoch); Python floats are idealised as reals.
  The exceptions that the modelled code can raise are collected in one datatype.
\<close>

datatype error = ValueError | NodeNotFound | NetworkXNoPath | TypeError

text \<open>
  The dataclass \<^verbatim>\<open>DataPoint\<close>.  The two item columns of a rate default to
  \<^verbatim>\<open>None\<close>.
\<close>

record DataPoint =
  dp_timestamp :: int
  dp_item_id :: int
  dp_value :: real
  dp_source :: string
  dp_confidence :: real
  dp_type :: string
  dp_source_item_id :: "int option"
  dp_target_item_id :: "int option"

text \<open>
  \<^verbatim>\<open>DataPoint.to_dict\<close>: the two rate columns are written only for a point of type
  \<^verbatim>\<open>'exchange_rate'\<close>; in the data frame built from the dictionaries a column that a
  row does not have is null.
\<close>

definition to_dict :: "DataPoint \<Rightarrow> DataPoint" where
  "to_dict dp =
     (if dp_type dp = ''exchange_rate'' then dp
      else dp\<lparr>dp_source_item_id := None, dp_target_item_id := None\<rparr>)"

text \<open>
  A data frame is the list of its rows, each with its index label.
  \<^verbatim>\<open>pd.DataFrame([dp.to_dict() for dp in self.data_points])\<close> labels the rows
  \<open>0, 1, 2, \<dots>\<close> in the order of the buffer, which is the order of ingestion.
\<close>

type_synonym frame = "(nat \<times> DataPoint) list"

definition data_frame :: "DataPoint list \<Rightarrow> frame" where
  "data_frame data_points = enumerate 0 (map to_dict data_points)"

text \<open>The grouping key of \<^verbatim>\<open>df.groupby(['timestamp', 'item_id'])\<close>.\<close>

definition row_key :: "DataPoint \<Rightarrow> int \<times> int" where
  "row_key r = (dp_timestamp r, dp_item_id r)"

text \<open>Iterating over a \<^verbatim>\<open>groupby\<close> visits the distinct keys in ascending order.\<close>

definition groupby_keys :: "frame \<Rightarrow> (int \<times> int) list" where
  "groupby_keys df = sort (remdups (map (\<lambda>(i, r). row_key r) df))"

text \<open>The rows of one group, in the order of the frame.\<close>

definition get_group :: "frame \<Rightarrow> int \<times> int \<Rightarrow> frame" where
  "get_group df k = filter (\<lambda>(i, r). row_key r = k) df"

text \<open>
  \<^verbatim>\<open>group.loc[group['confidence'].idxmax()]\<close>: \<^verbatim>\<open>idxmax\<close> gives the label of the
  first row that holds the maximum, so a later row replaces the best one only when its
  confidence is strictly greater.
\<close>

fun idxmax_row :: "nat \<times> DataPoint \<Rightarrow> frame \<Rightarrow> nat \<times> DataPoint" where
  "idxmax_row best [] = best"
| "idxmax_row best (r # rs) =
     idxmax_row (if dp_confidence (snd best) < dp_confidence (snd r) then r else best) rs"

text \<open>
  The body of the loop of \<^verbatim>\<open>merge_data\<close> for one group: \<open>None\<close> is the
  \<^verbatim>\<open>continue\<close> of a group that is empty after the confidence filter.
  \<^verbatim>\<open>if priority_sources:\<close> is false for \<^verbatim>\<open>None\<close> and for the empty list.
\<close>

definition merge_group :: "string list option \<Rightarrow> real \<Rightarrow> frame \<Rightarrow> (nat \<times> DataPoint) option" where
  "merge_group priority_sources min_confidence grp =
     (let group1 = filter (\<lambda>(i, r). min_confidence \<le> dp_confidence r) grp in
      if group1 = [] then None
      else
        let priority_group =
              (case priority_sources of
                 None \<Rightarrow> []
               | Some ps \<Rightarrow> filter (\<lambda>(i, r). dp_source r \<in> set ps) group1);
            group2 = (if priority_group \<noteq> [] then priority_group else group1)
        in Some (idxmax_row (hd group2) (tl group2)))"

text \<open>The \<^verbatim>\<open>try\<close> block of \<^verbatim>\<open>merge_data\<close>: an empty buffer raises \<^verbatim>\<open>ValueError\<close>.\<close>

definition merge_data_try :: "DataPoint list \<Rightarrow> string list option \<Rightarrow> real \<Rightarrow> error + frame" where
  "merge_data_try data_points priority_sources min_confidence =
     (if data_points = [] then Inl ValueError
      else
        let df = data_frame data_points in
        Inr (List.map_filter
               (\<lambda>k. merge_group priority_sources min_confidence (get_group df k))
               (groupby_keys df)))"

text \<open>
  \<^verbatim>\<open>merge_data\<close>: the handler \<^verbatim>\<open>except Exception\<close> logs the error and returns an
  empty frame.
\<close>

definition merge_data :: "DataPoint list \<Rightarrow> string list option \<Rightarrow> real \<Rightarrow> frame" where
  "merge_data data_points priority_sources min_confidence =
     (case merge_data_try data_points priority_sources min_confidence of
        Inl e \<Rightarrow> []
      | Inr merged \<Rightarrow> merged)"

text \<open>The dictionary returned by \<^verbatim>\<open>get_statistics\<close>.\<close>

record statistics =
  total_points :: nat
  price_points :: nat
  rate_points :: nat
  sources :: "(string \<times> nat) list"
  confidence_mean :: real
  confidence_min :: real
  confidence_max :: real

text \<open>
  \<^verbatim>\<open>df['source'].value_counts().to_dict()\<close>: one entry per distinct source with the
  number of its rows, the most frequent source first.
\<close>

definition value_counts :: "string list \<Rightarrow> (string \<times> nat) list" where
  "value_counts xs =
     rev (sort_key snd (rev (map (\<lambda>s. (s, count_list xs s)) (remdups xs))))"

definition get_statistics :: "DataPoint list \<Rightarrow> statistics" where
  "get_statistics data_points =
     (if data_points = [] then
        \<lparr>total_points = 0, price_points = 0, rate_points = 0, sources = [],
         confidence_mean = 0, confidence_min = 0, confidence_max = 0\<rparr>
      else
        let df = map to_dict data_points;
            cs = map dp_confidence df
        in \<lparr>total_points = length df,
            price_points = length (filter (\<lambda>r. dp_type r = ''price'') df),
            rate_points = length (filter (\<lambda>r. dp_type r = ''exchange_rate'') df),
            sources = value_counts (map dp_source df),
            confidence_mean = sum_list cs / real (length cs),
            confidence_min = Min (set cs),
            confidence_max = Max (set cs)\<rparr>)"


text \<open>
  The two branches of the loop of \<^verbatim>\<open>ingest_data\<close>: the point built from a row of a
  price frame, and the one built from a row of a rate frame, whose \<^verbatim>\<open>item_id\<close> is
  the source item of the rate.
\<close>

definition price_point :: "int \<Rightarrow> int \<Rightarrow> real \<Rightarrow> string \<Rightarrow> real \<Rightarrow> DataPoint" where
  "price_point ts item v src conf =
     \<lparr>dp_timestamp = ts, dp_item_id = item, dp_value = v, dp_source = src,
      dp_confidence = conf, dp_type = ''price'',
      dp_source_item_id = None, dp_target_item_id = None\<rparr>"

definition rate_point :: "int \<Rightarrow> int \<Rightarrow> int \<Rightarrow> real \<Rightarrow> string \<Rightarrow> real \<Rightarrow> DataPoint" where
  "rate_point ts src_item tgt_item v src conf =
     \<lparr>dp_timestamp = ts, dp_item_id = src_item, dp_value = v, dp_source = src,
      dp_confidence = conf, dp_type = ''exchange_rate'',
      dp_source_item_id = Some src_item, dp_target_item_id = Some tgt_item\<rparr>"

text \<open>
  The rows of a group among which \<^verbatim>\<open>merge_data\<close> takes the maximum: those at or above
  \<open>min_confidence\<close>, restricted to the priority sources when some such row comes from one.
\<close>

definition candidates :: "string list option \<Rightarrow> real \<Rightarrow> frame \<Rightarrow> frame" where
  "candidates priority_sources min_confidence grp =
     (let group1 = filter (\<lambda>(i, r). min_confidence \<le> dp_confidence r) grp;
          priority_group =
              (case priority_sources of
                 None \<Rightarrow> []
               | Some ps \<Rightarrow> filter (\<lambda>(i, r). dp_source r \<in> set ps) group1)
      in if priority_group \<noteq> [] then priority_group else group1)"

text \<open>
  The key that separates observations by instant, item pair and kind; a price has no
  target item.
\<close>

definition full_key :: "DataPoint \<Rightarrow> int \<times> (int \<times> int option) \<times> string" where
  "full_key r = (dp_timestamp r, (dp_item_id r, dp_target_item_id r), dp_type r)"

section \<open>Quality validator: \<^verbatim>\<open>pipeline/validate.py\<close>\<close>

text \<open>
  A cell of a \<^verbatim>\<open>timestamp\<close> column: a datetime value, a value that is not yet a
  datetime (a string, say) and that \<^verbatim>\<open>pd.to_datetime\<close> converts to the given instant,
  a value that \<^verbatim>\<open>pd.to_datetime\<close> rejects, or the null datetime.
\<close>

datatype ts_cell = Stamp int | Text int | Junk | NaT

fun to_datetime_cell :: "ts_cell \<Rightarrow> ts_cell option" where
  "to_datetime_cell (Stamp n) = Some (Stamp n)"
| "to_datetime_cell (Text n) = Some (Stamp n)"
| "to_datetime_cell Junk = None"
| "to_datetime_cell NaT = Some NaT"

text \<open>
  \<^verbatim>\<open>pd.to_datetime\<close> on a column: \<open>None\<close> when it raises, which it does as soon as
  one cell cannot be converted.
\<close>

definition to_datetime :: "ts_cell list \<Rightarrow> ts_cell list option" where
  "to_datetime col = those (map to_datetime_cell col)"

text \<open>
  The rows of the two record batches, with the columns that the pipeline reads.  The item
  identifiers are the key columns and are never null; every other cell can be null
  (\<open>None\<close>, or \<open>NaT\<close> for a timestamp).
\<close>

record price_row =
  pr_item_id :: int
  pr_price :: "real option"
  pr_timestamp :: ts_cell
  pr_source :: "string option"
  pr_confidence :: "real option"

record rate_row =
  rt_source_item_id :: int
  rt_target_item_id :: int
  rt_rate :: "real option"
  rt_timestamp :: ts_cell
  rt_source :: "string option"
  rt_confidence :: "real option"

text \<open>
  The assignment \<^verbatim>\<open>prices['timestamp'] = ...\<close>, which replaces the column of the frame
  that the caller passed in.
\<close>

definition set_price_timestamps :: "price_row list \<Rightarrow> ts_cell list \<Rightarrow> price_row list" where
  "set_price_timestamps prices col = map (\<lambda>(r, c). r\<lparr>pr_timestamp := c\<rparr>) (zip prices col)"

definition set_rate_timestamps :: "rate_row list \<Rightarrow> ts_cell list \<Rightarrow> rate_row list" where
  "set_rate_timestamps rates col = map (\<lambda>(r, c). r\<lparr>rt_timestamp := c\<rparr>) (zip rates col)"

text \<open>\<^verbatim>\<open>isnull().sum().sum()\<close> counts the null cells of all columns.\<close>

definition is_null :: "'a option \<Rightarrow> nat" where
  "is_null c = (if c = None then 1 else 0)"

definition price_row_nulls :: "price_row \<Rightarrow> nat" where
  "price_row_nulls r =
     is_null (pr_price r) + (if pr_timestamp r = NaT then 1 else 0) +
     is_null (pr_source r) + is_null (pr_confidence r)"

definition rate_row_nulls :: "rate_row \<Rightarrow> nat" where
  "rate_row_nulls r =
     is_null (rt_rate r) + (if rt_timestamp r = NaT then 1 else 0) +
     is_null (rt_source r) + is_null (rt_confidence r)"

text \<open>
  \<^verbatim>\<open>(prices['price'] < min_price) | (prices['price'] > max_price)\<close>: both comparisons
  are false on a null cell.  The upper bound \<open>None\<close> is the default
  \<^verbatim>\<open>float('inf')\<close>, which no value exceeds.
\<close>

definition out_of_range_cell :: "real \<Rightarrow> real option \<Rightarrow> real option \<Rightarrow> bool" where
  "out_of_range_cell lo hi c =
     (case c of
        None \<Rightarrow> False
      | Some v \<Rightarrow> v < lo \<or> (case hi of None \<Rightarrow> False | Some h \<Rightarrow> h < v))"

text \<open>
  \<^verbatim>\<open>duplicated()\<close> marks every row that equals an earlier row; \<^verbatim>\<open>.sum()\<close> counts
  the marks.  \<^verbatim>\<open>unique()\<close> lists the distinct values of a column in the order of their
  first appearance.
\<close>

definition duplicated :: "'a list \<Rightarrow> bool list" where
  "duplicated rows = map (\<lambda>i. rows ! i \<in> set (take i rows)) [0..<length rows]"

definition count_true :: "bool list \<Rightarrow> nat" where
  "count_true bs = length (filter (\<lambda>b. b) bs)"

definition unique_vals :: "'a list \<Rightarrow> 'a list" where
  "unique_vals col = rev (remdups (rev col))"

text \<open>
  The gaps of one item: \<^verbatim>\<open>sort_values('timestamp')\<close> puts the null timestamps last, the
  difference with a null timestamp is null, and a null difference is not greater than
  \<open>max_gap\<close>; so the count runs over the consecutive pairs of the sorted non-null instants.
  The parameter \<open>max_gap\<close> is the duration that \<^verbatim>\<open>pd.Timedelta(max_gap)\<close> denotes.
\<close>

fun stamps_of :: "ts_cell list \<Rightarrow> int list" where
  "stamps_of [] = []"
| "stamps_of (Stamp n # cs) = n # stamps_of cs"
| "stamps_of (c # cs) = stamps_of cs"

fun count_gaps :: "int \<Rightarrow> int list \<Rightarrow> nat" where
  "count_gaps max_gap (a # b # ts) =
     (if max_gap < b - a then 1 else 0) + count_gaps max_gap (b # ts)"
| "count_gaps max_gap ts = 0"

definition large_gap_count :: "int \<Rightarrow> ts_cell list \<Rightarrow> nat" where
  "large_gap_count max_gap col = count_gaps max_gap (sort (stamps_of col))"

text \<open>The dictionary returned by the price and rate validators.\<close>

record validation_report =
  total_records :: int
  valid_records :: int
  invalid_records :: int
  missing_values :: int
  out_of_range :: int
  large_gaps :: int
  duplicates :: int
  validation_passed :: bool

text \<open>
  \<^verbatim>\<open>validate_price_data\<close>.  The result is the frame as the call leaves it, and the
  report; the report is \<open>None\<close> for the empty dictionary that the handler
  \<^verbatim>\<open>except Exception\<close> returns.
\<close>

definition validate_price_data ::
  "price_row list \<Rightarrow> real \<Rightarrow> real option \<Rightarrow> int \<Rightarrow> price_row list \<times> validation_report option" where
  "validate_price_data prices0 min_price max_price max_gap =
     (case to_datetime (map pr_timestamp prices0) of
        None \<Rightarrow> (prices0, None)
      | Some col \<Rightarrow>
          let prices = set_price_timestamps prices0 col;
              total = int (length prices);
              missing = int (sum_list (map price_row_nulls prices));
              oor = int (count_true (map (\<lambda>r. out_of_range_cell min_price max_price (pr_price r)) prices));
              dups = int (count_true (duplicated prices));
              gaps = int (sum_list (map
                       (\<lambda>item_id. large_gap_count max_gap
                           (map pr_timestamp (filter (\<lambda>r. pr_item_id r = item_id) prices)))
                       (unique_vals (map pr_item_id prices))));
              valid = total - missing - oor - dups;
              invalid = total - valid
          in (prices,
              Some \<lparr>total_records = total, valid_records = valid, invalid_records = invalid,
                    missing_values = missing, out_of_range = oor, large_gaps = gaps,
                    duplicates = dups,
                    validation_passed = (0 < valid \<and> invalid = 0)\<rparr>))"

text \<open>
  \<^verbatim>\<open>validate_exchange_rate_data\<close>: the same checks, with the gaps counted for each pair
  of a source item and a target item that has rows.
\<close>

definition validate_exchange_rate_data ::
  "rate_row list \<Rightarrow> real \<Rightarrow> real option \<Rightarrow> int \<Rightarrow> rate_row list \<times> validation_report option" where
  "validate_exchange_rate_data rates0 min_rate max_rate max_gap =
     (case to_datetime (map rt_timestamp rates0) of
        None \<Rightarrow> (rates0, None)
      | Some col \<Rightarrow>
          let rates = set_rate_timestamps rates0 col;
              total = int (length rates);
              missing = int (sum_list (map rate_row_nulls rates));
              oor = int (count_true (map (\<lambda>r. out_of_range_cell min_rate max_rate (rt_rate r)) rates));
              dups = int (count_true (duplicated rates));
              gaps = int (sum_list (map
                       (\<lambda>source_id. sum_list (map
                          (\<lambda>target_id.
                             let pair_rates = filter (\<lambda>r. rt_source_item_id r = source_id \<and>
                                                          rt_target_item_id r = target_id) rates
                             in if pair_rates \<noteq> []
                                then large_gap_count max_gap (map rt_timestamp pair_rates)
                                else 0)
                          (unique_vals (map rt_target_item_id rates))))
                       (unique_vals (map rt_source_item_id rates))));
              valid = total - missing - oor - dups;
              invalid = total - valid
          in (rates,
              Some \<lparr>total_records = total, valid_records = valid, invalid_records = invalid,
                    missing_values = missing, out_of_range = oor, large_gaps = gaps,
                    duplicates = dups,
                    validation_passed = (0 < valid \<and> invalid = 0)\<rparr>))"





text \<open>
  \<^verbatim>\<open>pd.date_range(start, end, freq)\<close>: the instants from \<open>start_date\<close> in steps of the
  duration that \<open>freq\<close> denotes, up to \<open>end_date\<close> inclusive; a zero step is rejected.
\<close>

definition date_range :: "int \<Rightarrow> int \<Rightarrow> int \<Rightarrow> int list option" where
  "date_range start_date end_date freq =
     (if freq = 0 then None
      else if 0 < freq then
        Some (if end_date < start_date then []
              else map (\<lambda>k. start_date + int k * freq)
                     [0..<nat ((end_date - start_date) div freq) + 1])
      else
        Some (if start_date < end_date then []
              else map (\<lambda>k. start_date + int k * freq)
                     [0..<nat ((start_date - end_date) div (- freq)) + 1]))"

text \<open>\<^verbatim>\<open>len(set(date_range) - item_dates)\<close>.\<close>

definition missing_periods :: "int list \<Rightarrow> ts_cell list \<Rightarrow> nat" where
  "missing_periods dates col = length (filter (\<lambda>d. Stamp d \<notin> set col) dates)"

text \<open>The dictionary returned by \<^verbatim>\<open>validate_data_completeness\<close>.\<close>

record completeness_report =
  total_periods :: int
  missing_price_periods :: int
  missing_rate_periods :: int
  completeness_passed :: bool

text \<open>
  \<^verbatim>\<open>validate_data_completeness\<close> assigns the converted timestamp column to the prices
  frame, then to the rates frame; an exception leaves the frames as they are at that moment.
\<close>

definition validate_data_completeness ::
  "price_row list \<Rightarrow> rate_row list \<Rightarrow> int \<Rightarrow> int \<Rightarrow> int \<Rightarrow>
     price_row list \<times> rate_row list \<times> completeness_report option" where
  "validate_data_completeness prices0 rates0 start_date end_date frequency =
     (case to_datetime (map pr_timestamp prices0) of
        None \<Rightarrow> (prices0, rates0, None)
      | Some pcol \<Rightarrow>
          let prices = set_price_timestamps prices0 pcol in
          (case to_datetime (map rt_timestamp rates0) of
             None \<Rightarrow> (prices, rates0, None)
           | Some rcol \<Rightarrow>
               let rates = set_rate_timestamps rates0 rcol in
               (case date_range start_date end_date frequency of
                  None \<Rightarrow> (prices, rates, None)
                | Some dates \<Rightarrow>
                    let missing_price = int (sum_list (map
                          (\<lambda>item_id. missing_periods dates
                              (map pr_timestamp (filter (\<lambda>r. pr_item_id r = item_id) prices)))
                          (unique_vals (map pr_item_id prices))));
                        missing_rate = int (sum_list (map
                          (\<lambda>source_id. sum_list (map
                             (\<lambda>target_id. missing_periods dates
                                (map rt_timestamp
                                   (filter (\<lambda>r. rt_source_item_id r = source_id \<and>
                                                 rt_target_item_id r = target_id) rates)))
                             (unique_vals (map rt_target_item_id rates))))
                          (unique_vals (map rt_source_item_id rates))))
                    in (prices, rates,
                        Some \<lparr>total_periods = int (length dates),
                              missing_price_periods = missing_price,
                              missing_rate_periods = missing_rate,
                              completeness_passed = (missing_price = 0 \<and> missing_rate = 0)\<rparr>))))"

text \<open>The cells that already hold a datetime value (or the null datetime).\<close>

fun is_datetime :: "ts_cell \<Rightarrow> bool" where
  "is_datetime (Stamp n) = True"
| "is_datetime NaT = True"
| "is_datetime c = False"

text \<open>Rows of a price batch and of a rate batch, for the examples.\<close>

definition ex_price_row :: "int \<Rightarrow> real \<Rightarrow> ts_cell \<Rightarrow> price_row" where
  "ex_price_row item v ts =
     \<lparr>pr_item_id = item, pr_price = Some v, pr_timestamp = ts,
      pr_source = Some ''api'', pr_confidence = Some 1\<rparr>"


section \<open>Value graph: \<^verbatim>\<open>models/graph_structure.py\<close>\<close>













































section \<open>Properties of the observation store\<close>

text \<open>
  Claim C9.  On an empty buffer \<^verbatim>\<open>merge_data\<close> returns the empty frame (the
  \<^verbatim>\<open>ValueError\<close> raised inside its \<^verbatim>\<open>try\<close> block is caught by its own handler) and
  \<^verbatim>\<open>get_statistics\<close> returns the dictionary whose counts are all zero; neither call
  ends in an exception.
\<close>

theorem empty_buffer_merge_and_statistics:
  "merge_data [] priority_sources min_confidence = [] \<and>
   merge_data_try [] priority_sources min_confidence = Inl ValueError \<and>
   get_statistics [] =
     \<lparr>total_points = 0, price_points = 0, rate_points = 0, sources = [],
      confidence_mean = 0, confidence_min = 0, confidence_max = 0\<rparr>"
  by (simp add: merge_data_def merge_data_try_def get_statistics_def)

subsection \<open>The row chosen in a group\<close>

lemma idxmax_row_mem: "idxmax_row best rs \<in> set (best # rs)"
  by (induction rs arbitrary: best) auto

lemma idxmax_row_max:
  "x \<in> set (best # rs) \<Longrightarrow> dp_confidence (snd x) \<le> dp_confidence (snd (idxmax_row best rs))"
proof (induction rs arbitrary: best x)
  case Nil
  then show ?case by simp
next
  case (Cons r rs)
  let ?b = "if dp_confidence (snd best) < dp_confidence (snd r) then r else best"
  have step: "dp_confidence (snd y) \<le> dp_confidence (snd (idxmax_row ?b rs))" if "y \<in> set (?b # rs)" for y
    using Cons.IH [of y ?b] that by simp
  have b: "dp_confidence (snd ?b) \<le> dp_confidence (snd (idxmax_row ?b rs))"
    using step [of ?b] by simp
  from Cons.prems consider "x = best" | "x = r" | "x \<in> set rs" by auto
  then show ?case
  proof cases
    case 1
    then show ?thesis using b by (simp split: if_splits)
  next
    case 2
    then show ?thesis using b by (simp split: if_splits)
  next
    case 3
    then show ?thesis using step [of x] by simp
  qed
qed

lemma idxmax_row_first:
  assumes "\<forall>x\<in>set rs. fst best < fst x" and "sorted_wrt (<) (map fst rs)"
    and "x \<in> set (best # rs)"
    and "dp_confidence (snd x) = dp_confidence (snd (idxmax_row best rs))"
  shows "fst (idxmax_row best rs) \<le> fst x"
  using assms
proof (induction rs arbitrary: best x)
  case Nil
  then show ?case by simp
next
  case (Cons r rs)
  show ?case
  proof (cases "dp_confidence (snd best) < dp_confidence (snd r)")
    case True
    then have eq: "idxmax_row best (r # rs) = idxmax_row r rs" by simp
    have rmax: "dp_confidence (snd r) \<le> dp_confidence (snd (idxmax_row r rs))"
      using idxmax_row_max [of r r rs] by simp
    have "x \<noteq> best" using Cons.prems(4) True rmax eq by auto
    then have "x \<in> set (r # rs)" using Cons.prems(3) by auto
    moreover have "\<forall>y\<in>set rs. fst r < fst y" using Cons.prems(2) by auto
    moreover have "sorted_wrt (<) (map fst rs)" using Cons.prems(2) by simp
    ultimately show ?thesis using Cons.IH [of r x] Cons.prems(4) eq by simp
  next
    case False
    then have eq: "idxmax_row best (r # rs) = idxmax_row best rs" by simp
    have b: "\<forall>y\<in>set rs. fst best < fst y" using Cons.prems(1) by simp
    have s: "sorted_wrt (<) (map fst rs)" using Cons.prems(2) by simp
    show ?thesis
    proof (cases "x = r")
      case True
      have "dp_confidence (snd best) \<le> dp_confidence (snd (idxmax_row best rs))"
        using idxmax_row_max [of best best rs] by simp
      then have "dp_confidence (snd best) = dp_confidence (snd (idxmax_row best rs))"
        using False True Cons.prems(4) eq by simp
      then have "fst (idxmax_row best rs) \<le> fst best"
        using Cons.IH [of best best] b s by simp
      moreover have "fst best < fst r" using Cons.prems(1) by simp
      ultimately show ?thesis using True eq by simp
    next
      case False
      then have "x \<in> set (best # rs)" using Cons.prems(3) by auto
      then show ?thesis using Cons.IH [of best x] b s Cons.prems(4) eq by simp
    qed
  qed
qed

lemma merge_group_candidates:
  "merge_group ps mc grp =
     (case candidates ps mc grp of [] \<Rightarrow> None | c # cs \<Rightarrow> Some (idxmax_row c cs))"
proof (cases "filter (\<lambda>(i, r). mc \<le> dp_confidence r) grp = []")
  case True
  then show ?thesis
    by (cases ps) (simp_all add: merge_group_def candidates_def)
next
  case False
  then show ?thesis
    by (cases ps) (auto simp: merge_group_def candidates_def Let_def neq_Nil_conv)
qed

lemma candidates_subset: "set (candidates ps mc grp) \<subseteq> set grp"
  by (auto simp: candidates_def Let_def split: option.splits if_splits)

lemma candidates_sorted:
  "sorted_wrt (<) (map fst grp) \<Longrightarrow> sorted_wrt (<) (map fst (candidates ps mc grp))"
  by (auto simp: candidates_def Let_def sorted_wrt_map sorted_wrt_filter split: option.splits)

lemma data_frame_sorted: "sorted_wrt (<) (map fst (data_frame dps))"
  by (simp add: data_frame_def)

lemma get_group_sorted: "sorted_wrt (<) (map fst (get_group (data_frame dps) k))"
  using data_frame_sorted [of dps] by (simp add: get_group_def sorted_wrt_map sorted_wrt_filter)

lemma set_map_filter: "set (List.map_filter f xs) = {y. \<exists>x\<in>set xs. f x = Some y}"
  by (induction xs) (auto simp: List.map_filter_simps split: option.splits)

lemma set_groupby_keys: "set (groupby_keys df) = (\<lambda>x. row_key (snd x)) ` set df"
  by (force simp: groupby_keys_def case_prod_beta)

lemma merge_data_set:
  "x \<in> set (merge_data dps ps mc) \<longleftrightarrow>
     (\<exists>k\<in>set (groupby_keys (data_frame dps)).
         merge_group ps mc (get_group (data_frame dps) k) = Some x)"
proof (cases "dps = []")
  case True
  then show ?thesis
    by (simp add: merge_data_def merge_data_try_def groupby_keys_def data_frame_def)
next
  case False
  then show ?thesis
    by (simp add: merge_data_def merge_data_try_def Let_def set_map_filter)
qed

lemma merge_group_key:
  assumes "merge_group ps mc (get_group df k) = Some x"
  shows "x \<in> set df \<and> row_key (snd x) = k"
proof -
  obtain c cs where c: "candidates ps mc (get_group df k) = c # cs" and x: "x = idxmax_row c cs"
    using assms by (auto simp: merge_group_candidates split: list.splits)
  have "x \<in> set (candidates ps mc (get_group df k))"
    using idxmax_row_mem [of c cs] c x by simp
  then have "x \<in> set (get_group df k)"
    using candidates_subset by blast
  then show ?thesis by (auto simp: get_group_def)
qed

lemmas merge_eval = merge_data_def merge_data_try_def data_frame_def to_dict_def
  groupby_keys_def get_group_def merge_group_def row_key_def List.map_filter_simps
  price_point_def rate_point_def candidates_def Let_def

text \<open>
  Claim C2, as the code has it.  A row is returned by \<^verbatim>\<open>merge_data\<close> exactly when it is
  a candidate of its group (at or above \<open>min_confidence\<close>, and from a priority source when
  the group has such rows), no candidate of the group has a greater confidence, and every
  candidate with the same confidence has a greater or equal index label, that is, was
  ingested later: among the members that tie at the maximum, the first ingested is returned.
\<close>

theorem merge_picks_first_ingested_maximum:
  "(i, r) \<in> set (merge_data dps ps mc) \<longleftrightarrow>
     (i, r) \<in> set (candidates ps mc (get_group (data_frame dps) (row_key r))) \<and>
     (\<forall>(j, q) \<in> set (candidates ps mc (get_group (data_frame dps) (row_key r))).
        dp_confidence q \<le> dp_confidence r \<and> (dp_confidence q = dp_confidence r \<longrightarrow> i \<le> j))"
  (is "?L \<longleftrightarrow> ?C \<and> ?M")
proof
  let ?df = "data_frame dps"
  let ?cs = "candidates ps mc (get_group ?df (row_key r))"
  assume ?L
  then obtain k where k: "merge_group ps mc (get_group ?df k) = Some (i, r)"
    unfolding merge_data_set by blast
  then have "row_key r = k" using merge_group_key [OF k] by simp
  with k obtain c cs where c: "?cs = c # cs" and x: "(i, r) = idxmax_row c cs"
    by (auto simp: merge_group_candidates split: list.splits)
  have srt: "sorted_wrt (<) (map fst (c # cs))"
    using candidates_sorted [OF get_group_sorted, of ps mc dps "row_key r"] c by simp
  have mem: "(i, r) \<in> set ?cs" using idxmax_row_mem [of c cs] c x by simp
  have "dp_confidence q \<le> dp_confidence r \<and> (dp_confidence q = dp_confidence r \<longrightarrow> i \<le> j)"
    if "(j, q) \<in> set ?cs" for j q
  proof
    have jq: "(j, q) \<in> set (c # cs)" using that c by simp
    show "dp_confidence q \<le> dp_confidence r"
      using idxmax_row_max [OF jq] x [symmetric] by simp
    show "dp_confidence q = dp_confidence r \<longrightarrow> i \<le> j"
    proof
      assume "dp_confidence q = dp_confidence r"
      then have "dp_confidence (snd (j, q)) = dp_confidence (snd (idxmax_row c cs))"
        using x [symmetric] by simp
      moreover have "\<forall>y\<in>set cs. fst c < fst y" using srt by simp
      moreover have "sorted_wrt (<) (map fst cs)" using srt by simp
      ultimately have "fst (idxmax_row c cs) \<le> fst (j, q)"
        using idxmax_row_first [of cs c "(j, q)"] jq by blast
      then show "i \<le> j" using x [symmetric] by simp
    qed
  qed
  with mem show "?C \<and> ?M" by blast
next
  let ?df = "data_frame dps"
  let ?cs = "candidates ps mc (get_group ?df (row_key r))"
  assume cm: "?C \<and> ?M"
  then have mem: "(i, r) \<in> set ?cs" by simp
  then obtain c cs where c: "?cs = c # cs" by (cases ?cs) auto
  obtain i' r' where x: "idxmax_row c cs = (i', r')" by (cases "idxmax_row c cs")
  have mem': "(i', r') \<in> set ?cs" using idxmax_row_mem [of c cs] c x by simp
  have srt: "sorted_wrt (<) (map fst ?cs)"
    using candidates_sorted [OF get_group_sorted] by blast
  have "dp_confidence r \<le> dp_confidence r'"
    using idxmax_row_max [of "(i, r)" c cs] mem c x by simp
  moreover have "dp_confidence r' \<le> dp_confidence r" using cm mem' by blast
  ultimately have ceq: "dp_confidence r' = dp_confidence r" by simp
  then have "i \<le> i'" using cm mem' by blast
  moreover have "i' \<le> i"
  proof -
    have "\<forall>y\<in>set cs. fst c < fst y" "sorted_wrt (<) (map fst cs)" using srt c by simp_all
    then have "fst (idxmax_row c cs) \<le> fst (i, r)"
      using idxmax_row_first [of cs c "(i, r)"] mem c x ceq by simp
    then show ?thesis using x by simp
  qed
  ultimately have ieq: "i' = i" by simp
  have "distinct (map fst ?cs)"
    using srt by (simp add: strict_sorted_iff)
  then have "r' = r" using mem mem' ieq by (meson eq_key_imp_eq_value)
  then have "merge_group ps mc (get_group ?df (row_key r)) = Some (i, r)"
    using c x ieq by (simp add: merge_group_candidates)
  moreover have "(i, r) \<in> set ?df"
    using mem candidates_subset [of ps mc "get_group ?df (row_key r)"] by (auto simp: get_group_def)
  then have "row_key r \<in> set (groupby_keys ?df)"
    unfolding set_groupby_keys by force
  ultimately show ?L
    unfolding merge_data_set by blast
qed

text \<open>
  Two prices of item 1 at instant 0 with the same confidence: the first one satisfies the
  right-hand side of the characterisation, so it is in the result.
\<close>

theorem merge_picks_first_ingested_maximum_witness:
  "(0, price_point 0 1 10 ''first'' (9/10)) \<in>
     set (merge_data [price_point 0 1 10 ''first'' (9/10), price_point 0 1 20 ''second'' (9/10)]
      None (7/10))"
  using merge_picks_first_ingested_maximum [of 0 "price_point 0 1 10 ''first'' (9/10)"
      "[price_point 0 1 10 ''first'' (9/10), price_point 0 1 20 ''second'' (9/10)]" None "7/10"]
  by (simp add: data_frame_def to_dict_def get_group_def row_key_def price_point_def candidates_def)

text \<open>
  Against claim C2 as stated: the two observations tie at confidence 0.9, and the merged
  frame holds the one ingested first (label 0), not the one ingested last (label 1).
\<close>

theorem merge_tie_last_ingested_counterexample:
  "merge_data [price_point 0 1 10 ''first'' (9/10), price_point 0 1 20 ''second'' (9/10)]
      None (7/10)
   = [(0, price_point 0 1 10 ''first'' (9/10))]"
  by (simp add: merge_eval)

subsection \<open>The grouping key\<close>

text \<open>
  Claim C3, as the code has it.  The groups of \<^verbatim>\<open>merge_data\<close> are keyed by the
  timestamp and \<^verbatim>\<open>item_id\<close> alone (for a rate, its source item): the merged frame has at
  most one row for each such key, hence at most one row for each instant, item pair and
  kind, and all its rows are rows of the buffer.
\<close>

theorem merge_groups_by_timestamp_and_item:
  "distinct (map (\<lambda>(i, r). row_key r) (merge_data dps ps mc)) \<and>
   distinct (map (\<lambda>(i, r). full_key r) (merge_data dps ps mc)) \<and>
   set (merge_data dps ps mc) \<subseteq> set (data_frame dps)"
proof -
  let ?df = "data_frame dps"
  let ?f = "\<lambda>k. merge_group ps mc (get_group ?df k)"
  have md: "merge_data dps ps mc = List.map_filter ?f (groupby_keys ?df)"
    by (cases "dps = []")
      (simp_all add: merge_data_def merge_data_try_def Let_def groupby_keys_def data_frame_def
        List.map_filter_simps)
  have "map (\<lambda>(i, r). row_key r) (List.map_filter ?f (groupby_keys ?df))
        = filter (\<lambda>k. ?f k \<noteq> None) (groupby_keys ?df)"
    unfolding List.map_filter_def map_map
    by (rule map_idI) (use merge_group_key in force)
  moreover have "distinct (groupby_keys ?df)"
    by (simp add: groupby_keys_def)
  ultimately have d1: "distinct (map (\<lambda>(i, r). row_key r) (merge_data dps ps mc))"
    using md by simp
  have "map (\<lambda>(i, r). row_key r) (merge_data dps ps mc)
        = map (\<lambda>(t, (a, b), c). (t, a)) (map (\<lambda>(i, r). full_key r) (merge_data dps ps mc))"
    by (simp add: full_key_def row_key_def case_prod_beta)
  with d1 have d2: "distinct (map (\<lambda>(i, r). full_key r) (merge_data dps ps mc))"
    by (metis distinct_map)
  have "set (merge_data dps ps mc) \<subseteq> set ?df"
  proof
    fix x
    assume "x \<in> set (merge_data dps ps mc)"
    then obtain k where "?f k = Some x"
      unfolding merge_data_set by blast
    then show "x \<in> set ?df"
      using merge_group_key by blast
  qed
  with d1 d2 show ?thesis by simp
qed

theorem merge_groups_by_timestamp_and_item_witness:
  "distinct (map (\<lambda>(i, r). row_key r)
     (merge_data [rate_point 0 1 2 (1/2) ''s'' 1, rate_point 0 1 3 4 ''s'' 1] None (7/10)))"
  using merge_groups_by_timestamp_and_item
    [of "[rate_point 0 1 2 (1/2) ''s'' 1, rate_point 0 1 3 4 ''s'' 1]" None "7/10"]
  by simp

text \<open>
  Against claim C3 as stated: two rates with the same instant and source item but different
  target items, and a price of that item at that instant, are one group, and a single row
  is returned for the three.
\<close>

theorem merge_collapses_targets_counterexample:
  "merge_data [rate_point 0 1 2 (1/2) ''s'' 1, rate_point 0 1 3 4 ''s'' 1,
               price_point 0 1 7 ''s'' 1] None (7/10)
   = [(0, rate_point 0 1 2 (1/2) ''s'' 1)]"
  by (simp add: merge_eval)

section \<open>Properties of the quality validator\<close>

subsection \<open>The counts of the price report\<close>

lemma those_map:
  "those (map f xs) = (if \<forall>x\<in>set xs. f x \<noteq> None then Some (map (the \<circ> f) xs) else None)"
  by (induction xs) (auto split: option.splits)

lemma to_datetime_eq:
  "to_datetime col =
     (if Junk \<in> set col then None else Some (map (the \<circ> to_datetime_cell) col))"
proof -
  have "(\<forall>c\<in>set col. to_datetime_cell c \<noteq> None) \<longleftrightarrow> Junk \<notin> set col"
  proof
    assume a: "\<forall>c\<in>set col. to_datetime_cell c \<noteq> None"
    show "Junk \<notin> set col"
    proof
      assume "Junk \<in> set col"
      with a have "to_datetime_cell Junk \<noteq> None" by blast
      then show False by simp
    qed
  next
    assume a: "Junk \<notin> set col"
    show "\<forall>c\<in>set col. to_datetime_cell c \<noteq> None"
    proof
      fix c assume "c \<in> set col"
      with a have "c \<noteq> Junk" by auto
      then show "to_datetime_cell c \<noteq> None" by (cases c) auto
    qed
  qed
  then show ?thesis by (simp add: to_datetime_def those_map)
qed

lemma to_datetime_length: "to_datetime col = Some col' \<Longrightarrow> length col' = length col"
  by (auto simp: to_datetime_eq split: if_splits)

lemma length_set_price_timestamps:
  "length col = length prices \<Longrightarrow> length (set_price_timestamps prices col) = length prices"
  by (simp add: set_price_timestamps_def)

text \<open>
  Claim C4.  For a batch of price records whose timestamps can be converted to datetimes,
  and for all bounds and gap parameters, \<^verbatim>\<open>validate_price_data\<close> returns a report with
  \<open>valid_records = total_records - missing_values - out_of_range - duplicates\<close> and
  \<open>invalid_records = total_records - valid_records\<close>, in which \<open>validation_passed\<close> holds
  exactly when \<open>valid_records > 0\<close> and \<open>invalid_records = 0\<close>.  The gap parameter, and so the
  count \<open>large_gaps\<close>, has no influence on \<open>valid_records\<close> or on \<open>validation_passed\<close>.
\<close>

theorem validate_price_data_counts:
  assumes "to_datetime (map pr_timestamp prices) \<noteq> None"
  shows "\<exists>r r'. snd (validate_price_data prices min_price max_price max_gap) = Some r \<and>
          snd (validate_price_data prices min_price max_price max_gap') = Some r' \<and>
          total_records r = int (length prices) \<and>
          valid_records r = total_records r - missing_values r - out_of_range r - duplicates r \<and>
          invalid_records r = total_records r - valid_records r \<and>
          (validation_passed r \<longleftrightarrow> 0 < valid_records r \<and> invalid_records r = 0) \<and>
          valid_records r' = valid_records r \<and> validation_passed r' = validation_passed r"
proof -
  from assms obtain col where col: "to_datetime (map pr_timestamp prices) = Some col"
    by blast
  then have "length col = length prices"
    using to_datetime_length by fastforce
  then have len: "length (set_price_timestamps prices col) = length prices"
    by (rule length_set_price_timestamps)
  show ?thesis
    by (auto simp: validate_price_data_def col Let_def len)
qed

text \<open>
  Two prices of one item ten ticks apart, with \<open>max_gap = 7\<close>: one large gap is reported,
  both records are valid and the validation passes.
\<close>

theorem validate_price_data_counts_witness:
  "\<exists>r. snd (validate_price_data [ex_price_row 1 5 (Stamp 0), ex_price_row 1 6 (Stamp 10)] 0 None 7) = Some r \<and>
       valid_records r = 2 \<and> large_gaps r = 1 \<and> validation_passed r"
proof -
  have "to_datetime (map pr_timestamp [ex_price_row 1 5 (Stamp 0), ex_price_row 1 6 (Stamp 10)]) \<noteq> None"
    by (simp add: to_datetime_def ex_price_row_def)
  from validate_price_data_counts [OF this, of 0 None 7 7] show ?thesis
    by (auto simp: validate_price_data_def to_datetime_def ex_price_row_def Let_def
        set_price_timestamps_def price_row_nulls_def is_null_def out_of_range_cell_def
        duplicated_def count_true_def unique_vals_def large_gap_count_def)
qed

subsection \<open>The consistency report\<close>








subsection \<open>The effect of a validator on the frames it is given\<close>

lemma to_datetime_cell_datetime: "is_datetime c \<Longrightarrow> to_datetime_cell c = Some c"
  by (cases c) auto

lemma to_datetime_cell_result: "to_datetime_cell c = Some c' \<Longrightarrow> is_datetime c'"
  by (cases c) auto

lemma to_datetime_datetime:
  "list_all is_datetime col \<Longrightarrow> to_datetime col = Some col"
  unfolding to_datetime_def
  by (induction col) (auto simp: to_datetime_cell_datetime)

lemma to_datetime_result:
  "to_datetime col = Some col' \<Longrightarrow> list_all is_datetime col'"
  unfolding to_datetime_def
proof (induction col arbitrary: col')
  case Nil
  then show ?case by simp
next
  case (Cons c col)
  then show ?case
    by (auto split: option.splits dest: to_datetime_cell_result)
qed

lemma set_price_timestamps_same:
  "set_price_timestamps prices (map pr_timestamp prices) = prices"
  unfolding set_price_timestamps_def by (induction prices) auto

lemma set_rate_timestamps_same:
  "set_rate_timestamps rates (map rt_timestamp rates) = rates"
  unfolding set_rate_timestamps_def by (induction rates) auto

lemma timestamps_set_price:
  "length col = length prices \<Longrightarrow> map pr_timestamp (set_price_timestamps prices col) = col"
  unfolding set_price_timestamps_def
  by (induction prices col rule: list_induct2') auto

lemma timestamps_set_rate:
  "length col = length rates \<Longrightarrow> map rt_timestamp (set_rate_timestamps rates col) = col"
  unfolding set_rate_timestamps_def
  by (induction rates col rule: list_induct2') auto

lemma others_set_price:
  "length col = length prices \<Longrightarrow>
     map (\<lambda>r. r\<lparr>pr_timestamp := NaT\<rparr>) (set_price_timestamps prices col)
       = map (\<lambda>r. r\<lparr>pr_timestamp := NaT\<rparr>) prices"
  unfolding set_price_timestamps_def
  by (induction prices col rule: list_induct2') auto

lemma others_set_rate:
  "length col = length rates \<Longrightarrow>
     map (\<lambda>r. r\<lparr>rt_timestamp := NaT\<rparr>) (set_rate_timestamps rates col)
       = map (\<lambda>r. r\<lparr>rt_timestamp := NaT\<rparr>) rates"
  unfolding set_rate_timestamps_def
  by (induction rates col rule: list_induct2') auto

lemma price_frame_after:
  "fst (validate_price_data prices lo hi gap) =
     (case to_datetime (map pr_timestamp prices) of
        None \<Rightarrow> prices
      | Some col \<Rightarrow> set_price_timestamps prices col)"
  by (simp add: validate_price_data_def Let_def split: option.splits)

lemma rate_frame_after:
  "fst (validate_exchange_rate_data rates lo hi gap) =
     (case to_datetime (map rt_timestamp rates) of
        None \<Rightarrow> rates
      | Some col \<Rightarrow> set_rate_timestamps rates col)"
  by (simp add: validate_exchange_rate_data_def Let_def split: option.splits)

lemma price_converted_again:
  assumes "to_datetime (map pr_timestamp prices) = Some col"
  shows "to_datetime (map pr_timestamp (set_price_timestamps prices col)) = Some col"
    and "set_price_timestamps (set_price_timestamps prices col) col = set_price_timestamps prices col"
proof -
  have len: "length col = length prices"
    using to_datetime_length [OF assms] by simp
  then have ts: "map pr_timestamp (set_price_timestamps prices col) = col"
    by (rule timestamps_set_price)
  show "to_datetime (map pr_timestamp (set_price_timestamps prices col)) = Some col"
    using to_datetime_datetime [OF to_datetime_result [OF assms]] ts by simp
  show "set_price_timestamps (set_price_timestamps prices col) col = set_price_timestamps prices col"
    using set_price_timestamps_same [of "set_price_timestamps prices col"] ts by simp
qed

lemma rate_converted_again:
  assumes "to_datetime (map rt_timestamp rates) = Some col"
  shows "to_datetime (map rt_timestamp (set_rate_timestamps rates col)) = Some col"
    and "set_rate_timestamps (set_rate_timestamps rates col) col = set_rate_timestamps rates col"
proof -
  have len: "length col = length rates"
    using to_datetime_length [OF assms] by simp
  then have ts: "map rt_timestamp (set_rate_timestamps rates col) = col"
    by (rule timestamps_set_rate)
  show "to_datetime (map rt_timestamp (set_rate_timestamps rates col)) = Some col"
    using to_datetime_datetime [OF to_datetime_result [OF assms]] ts by simp
  show "set_rate_timestamps (set_rate_timestamps rates col) col = set_rate_timestamps rates col"
    using set_rate_timestamps_same [of "set_rate_timestamps rates col"] ts by simp
qed

lemma price_validator_again:
  "validate_price_data (fst (validate_price_data prices lo hi gap)) lo hi gap
     = validate_price_data prices lo hi gap"
proof (cases "to_datetime (map pr_timestamp prices)")
  case None
  then show ?thesis by (simp add: validate_price_data_def)
next
  case (Some col)
  have "fst (validate_price_data prices lo hi gap) = set_price_timestamps prices col"
    by (simp add: price_frame_after Some)
  then show ?thesis
    using price_converted_again [OF Some]
    by (simp add: validate_price_data_def Some)
qed

lemma rate_validator_again:
  "validate_exchange_rate_data (fst (validate_exchange_rate_data rates lo hi gap)) lo hi gap
     = validate_exchange_rate_data rates lo hi gap"
proof (cases "to_datetime (map rt_timestamp rates)")
  case None
  then show ?thesis by (simp add: validate_exchange_rate_data_def)
next
  case (Some col)
  have "fst (validate_exchange_rate_data rates lo hi gap) = set_rate_timestamps rates col"
    by (simp add: rate_frame_after Some)
  then show ?thesis
    using rate_converted_again [OF Some]
    by (simp add: validate_exchange_rate_data_def Some)
qed

lemma completeness_frames_after:
  "fst (validate_data_completeness prices rates s e f) =
     (case to_datetime (map pr_timestamp prices) of
        None \<Rightarrow> prices
      | Some col \<Rightarrow> set_price_timestamps prices col)"
  "fst (snd (validate_data_completeness prices rates s e f)) =
     (case to_datetime (map pr_timestamp prices) of
        None \<Rightarrow> rates
      | Some pcol \<Rightarrow>
          (case to_datetime (map rt_timestamp rates) of
             None \<Rightarrow> rates
           | Some col \<Rightarrow> set_rate_timestamps rates col))"
  by (simp_all add: validate_data_completeness_def Let_def split: option.splits)

lemma completeness_validator_again:
  "validate_data_completeness (fst (validate_data_completeness prices rates s e f))
       (fst (snd (validate_data_completeness prices rates s e f))) s e f
     = validate_data_completeness prices rates s e f"
proof (cases "to_datetime (map pr_timestamp prices)")
  case None
  then show ?thesis by (simp add: validate_data_completeness_def)
next
  case pc: (Some pcol)
  show ?thesis
  proof (cases "to_datetime (map rt_timestamp rates)")
    case None
    then show ?thesis
      using price_converted_again [OF pc]
      by (simp add: validate_data_completeness_def pc)
  next
    case rc: (Some rcol)
    have fr: "fst (validate_data_completeness prices rates s e f) = set_price_timestamps prices pcol"
      "fst (snd (validate_data_completeness prices rates s e f)) = set_rate_timestamps rates rcol"
      by (simp_all add: completeness_frames_after pc rc)
    show ?thesis
      unfolding fr
      using price_converted_again [OF pc] rate_converted_again [OF rc]
      by (simp add: validate_data_completeness_def pc rc)
  qed
qed


lemma price_frame_columns:
  "map (\<lambda>r. r\<lparr>pr_timestamp := NaT\<rparr>) (fst (validate_price_data prices lo hi gap))
     = map (\<lambda>r. r\<lparr>pr_timestamp := NaT\<rparr>) prices"
  by (auto simp: price_frame_after others_set_price to_datetime_length split: option.splits)

lemma rate_frame_columns:
  "map (\<lambda>r. r\<lparr>rt_timestamp := NaT\<rparr>) (fst (validate_exchange_rate_data rates lo hi gap))
     = map (\<lambda>r. r\<lparr>rt_timestamp := NaT\<rparr>) rates"
  by (auto simp: rate_frame_after others_set_rate to_datetime_length split: option.splits)

lemma completeness_frame_columns:
  "map (\<lambda>r. r\<lparr>pr_timestamp := NaT\<rparr>) (fst (validate_data_completeness prices rates s e f))
     = map (\<lambda>r. r\<lparr>pr_timestamp := NaT\<rparr>) prices"
  "map (\<lambda>r. r\<lparr>rt_timestamp := NaT\<rparr>) (fst (snd (validate_data_completeness prices rates s e f)))
     = map (\<lambda>r. r\<lparr>rt_timestamp := NaT\<rparr>) rates"
  by (auto simp: completeness_frames_after others_set_price others_set_rate to_datetime_length
      split: option.splits)

lemma price_frame_datetime:
  "list_all is_datetime (map pr_timestamp prices) \<Longrightarrow>
     fst (validate_price_data prices lo hi gap) = prices"
  by (simp add: price_frame_after to_datetime_datetime set_price_timestamps_same)

lemma rate_frame_datetime:
  "list_all is_datetime (map rt_timestamp rates) \<Longrightarrow>
     fst (validate_exchange_rate_data rates lo hi gap) = rates"
  by (simp add: rate_frame_after to_datetime_datetime set_rate_timestamps_same)

lemma completeness_frame_datetime:
  "list_all is_datetime (map pr_timestamp prices) \<Longrightarrow>
   list_all is_datetime (map rt_timestamp rates) \<Longrightarrow>
     fst (validate_data_completeness prices rates s e f) = prices \<and>
     fst (snd (validate_data_completeness prices rates s e f)) = rates"
  by (simp add: completeness_frames_after to_datetime_datetime set_price_timestamps_same
      set_rate_timestamps_same)

text \<open>
  Claim C8, as the code has it.  \<^verbatim>\<open>validate_data_consistency\<close> assigns to neither frame
  (it is a function of the two batches).  The price, rate and completeness validators
  assign the converted timestamp column to the frames they are given: every other column is
  unchanged, a frame whose timestamps already are datetimes is unchanged, and a second call
  on the frames that the first call left returns the same report and leaves them as they are.
\<close>

theorem validators_change_only_timestamp_column:
  "(validate_price_data (fst (validate_price_data prices lo hi gap)) lo hi gap
      = validate_price_data prices lo hi gap \<and>
    map (\<lambda>r. r\<lparr>pr_timestamp := NaT\<rparr>) (fst (validate_price_data prices lo hi gap))
      = map (\<lambda>r. r\<lparr>pr_timestamp := NaT\<rparr>) prices \<and>
    (list_all is_datetime (map pr_timestamp prices) \<longrightarrow>
       fst (validate_price_data prices lo hi gap) = prices)) \<and>
   (validate_exchange_rate_data (fst (validate_exchange_rate_data rates lo hi gap)) lo hi gap
      = validate_exchange_rate_data rates lo hi gap \<and>
    map (\<lambda>r. r\<lparr>rt_timestamp := NaT\<rparr>) (fst (validate_exchange_rate_data rates lo hi gap))
      = map (\<lambda>r. r\<lparr>rt_timestamp := NaT\<rparr>) rates \<and>
    (list_all is_datetime (map rt_timestamp rates) \<longrightarrow>
       fst (validate_exchange_rate_data rates lo hi gap) = rates)) \<and>
   (validate_data_completeness (fst (validate_data_completeness prices rates s e f))
       (fst (snd (validate_data_completeness prices rates s e f))) s e f
      = validate_data_completeness prices rates s e f \<and>
    map (\<lambda>r. r\<lparr>pr_timestamp := NaT\<rparr>) (fst (validate_data_completeness prices rates s e f))
      = map (\<lambda>r. r\<lparr>pr_timestamp := NaT\<rparr>) prices \<and>
    map (\<lambda>r. r\<lparr>rt_timestamp := NaT\<rparr>) (fst (snd (validate_data_completeness prices rates s e f)))
      = map (\<lambda>r. r\<lparr>rt_timestamp := NaT\<rparr>) rates \<and>
    (list_all is_datetime (map pr_timestamp prices) \<and>
     list_all is_datetime (map rt_timestamp rates) \<longrightarrow>
       fst (validate_data_completeness prices rates s e f) = prices \<and>
       fst (snd (validate_data_completeness prices rates s e f)) = rates))"
  using price_validator_again [of prices lo hi gap] price_frame_columns [of prices lo hi gap]
    price_frame_datetime [of prices lo hi gap]
    rate_validator_again [of rates lo hi gap] rate_frame_columns [of rates lo hi gap]
    rate_frame_datetime [of rates lo hi gap]
    completeness_validator_again [of prices rates s e f]
    completeness_frame_columns [of prices rates s e f]
    completeness_frame_datetime [of prices rates s e f]
  by blast

theorem validators_change_only_timestamp_column_witness:
  "fst (validate_price_data [ex_price_row 1 5 (Stamp 0)] 0 None 7) = [ex_price_row 1 5 (Stamp 0)]"
proof -
  have "list_all is_datetime (map pr_timestamp [ex_price_row 1 5 (Stamp 0)])"
    by (simp add: ex_price_row_def)
  with validators_change_only_timestamp_column
    [where prices = "[ex_price_row 1 5 (Stamp 0)]" and lo = 0 and hi = None and gap = 7]
  show ?thesis by blast
qed

text \<open>
  Against claim C8 as stated: a price frame whose timestamp is not yet a datetime is not the
  same after \<^verbatim>\<open>validate_price_data\<close>; its timestamp cell has been replaced.
\<close>

theorem validator_rewrites_timestamps_counterexample:
  "fst (validate_price_data [ex_price_row 1 5 (Text 0)] 0 None 7) = [ex_price_row 1 5 (Stamp 0)] \<and>
   [ex_price_row 1 5 (Stamp 0)] \<noteq> [ex_price_row 1 5 (Text 0)]"
  by (simp add: price_frame_after to_datetime_def set_price_timestamps_def ex_price_row_def)

section \<open>Properties of the value graph\<close>

subsection \<open>The edges of a built graph\<close>














subsection \<open>The volatility of a node\<close>


subsection \<open>Paths: the search that stands for the library routine\<close>
























subsection \<open>An item that cannot be reached\<close>




subsection \<open>The default routing cost\<close>



end
